theory Spec2Isabelle
  imports Main
begin

section \<open>Values exchanged with the client\<close>

text \<open>
  The handlers of \<^verbatim>\<open>main.py\<close> return Python dictionaries, model instances or nothing,
  and the framework writes them out as JSON. \<open>pyval\<close> is that value space: a dictionary
  keeps its keys in insertion order, so it is an association list. A \<open>string\<close> is the
  list of its characters (single-byte characters only).
\<close>

datatype pyval =
    PNone
  | PBool bool
  | PInt int
  | PStr string
  | PList "pyval list"
  | PDict "(string \<times> pyval) list"

fun fields_of :: "pyval \<Rightarrow> string list" where
  "fields_of (PDict d) = map fst d"
| "fields_of _ = []"

fun field :: "pyval \<Rightarrow> string \<Rightarrow> pyval option" where
  "field (PDict d) k = map_of d k"
| "field _ k = None"

text \<open>An \<^verbatim>\<open>Optional[str]\<close> written out: \<^verbatim>\<open>None\<close> is JSON null.\<close>

fun optional_str :: "string option \<Rightarrow> pyval" where
  "optional_str None = PNone"
| "optional_str (Some s) = PStr s"

section \<open>The models declared in main.py\<close>

text \<open>\<^verbatim>\<open>class Cart(BaseModel)\<close>, lines 27 to 30.\<close>

record Cart =
  items :: "string list"
  totalPrice :: int
  promotionsAttached :: bool

text \<open>
  \<^verbatim>\<open>class Course(str, Enum)\<close>, lines 33 to 36. \<open>Course_value\<close> is the literal each
  member carries; \<open>Course_of_value\<close> is the lookup of a member by its literal, the way
  an enum is built from a raw string: exact, case-sensitive equality, in declaration
  order.
\<close>

datatype Course = CHEMISTRY | PHYSICS | MATH

fun Course_value :: "Course \<Rightarrow> string" where
  "Course_value CHEMISTRY = ''chemistry''"
| "Course_value PHYSICS = ''physics''"
| "Course_value MATH = ''math''"

definition Course_of_value :: "string \<Rightarrow> Course option" where
  "Course_of_value raw = find (\<lambda>c. Course_value c = raw) [CHEMISTRY, PHYSICS, MATH]"

text \<open>
  \<^verbatim>\<open>class CourseEntity(BaseModel)\<close>, lines 39 to 47. The field \<^verbatim>\<open>id\<close> is written
  \<open>id'\<close> here, since \<open>id\<close> is the identity function of HOL; its JSON key stays
  \<^verbatim>\<open>id\<close>.
\<close>

record CourseEntity =
  id' :: int
  name :: string
  description :: string
  language :: "string option"
  rating :: int
  tags :: "string list"

text \<open>The two constraints the class puts on its fields with \<^verbatim>\<open>Field\<close>.\<close>

definition description_min_length :: nat where
  "description_min_length = 5"

definition tags_default :: "string list" where
  "tags_default = [''public'']"

text \<open>A model instance written out: its fields in declaration order.\<close>

definition Cart_json :: "Cart \<Rightarrow> pyval" where
  "Cart_json c =
     PDict [(''items'', PList (map PStr (items c))),
            (''totalPrice'', PInt (totalPrice c)),
            (''promotionsAttached'', PBool (promotionsAttached c))]"

definition CourseEntity_json :: "CourseEntity \<Rightarrow> pyval" where
  "CourseEntity_json e =
     PDict [(''id'', PInt (id' e)),
            (''name'', PStr (name e)),
            (''description'', PStr (description e)),
            (''language'', optional_str (language e)),
            (''rating'', PInt (rating e)),
            (''tags'', PList (map PStr (tags e)))]"

section \<open>The handlers\<close>

text \<open>
  \<^verbatim>\<open>raise HTTPException(status_code=..., detail=...)\<close> is the only exception a handler
  raises. A handler that may raise returns \<open>HTTPException + pyval\<close>.
\<close>

record HTTPException =
  status_code :: int
  detail :: string

text \<open>\<^verbatim>\<open>read_item\<close>, lines 64 to 66.\<close>

definition read_item :: "int \<Rightarrow> pyval" where
  "read_item item_id = PDict [(''item_id'', PInt item_id)]"

text \<open>
  \<^verbatim>\<open>get_course\<close>, lines 73 to 94: three \<^verbatim>\<open>if\<close> statements in a row, and no
  \<^verbatim>\<open>return\<close> after the last one, so a call that passes all three returns \<^verbatim>\<open>None\<close>.
  The parameter \<^verbatim>\<open>language\<close> is written \<open>lang\<close> (\<open>language\<close> is a field of
  \<open>CourseEntity\<close>).
\<close>

definition get_course :: "Course \<Rightarrow> string \<Rightarrow> int \<Rightarrow> pyval" where
  "get_course course lang minRating =
     (if course = CHEMISTRY then
        PDict [(''description'', PStr ''Let's learn about chemicals!''),
               (''language'', PStr lang),
               (''minRating'', PInt minRating)]
      else if course = PHYSICS then
        PDict [(''description'', PStr ''Let's learn about physical matters!''),
               (''language'', PStr lang),
               (''minRating'', PInt minRating)]
      else if course = MATH then
        PDict [(''description'', PStr ''Let's learn about numbers!''),
               (''language'', PStr lang),
               (''minRating'', PInt minRating)]
      else PNone)"

text \<open>
  \<^verbatim>\<open>create_course\<close>, lines 100 to 103: one line printed on the console, and the
  entity returned as it came. The result is the printed lines and the returned value.
\<close>

definition create_course :: "CourseEntity \<Rightarrow> string list \<times> CourseEntity" where
  "create_course course = ([''Course created successfully''], course)"

text \<open>\<^verbatim>\<open>get_students\<close>, lines 108 to 118.\<close>

definition get_students :: "string option \<Rightarrow> string option \<Rightarrow> string option \<Rightarrow> pyval" where
  "get_students token ads_id user_agent =
     PDict [(''cookie_token_found'', optional_str token),
            (''ads_id_in_browser'', optional_str ads_id),
            (''incoming_user_agent'', optional_str user_agent)]"

text \<open>\<^verbatim>\<open>get_cart\<close>, lines 124 to 130.\<close>

definition get_cart :: Cart where
  "get_cart =
     \<lparr>items = [''shampoo'', ''chocolates'', ''soap''],
      totalPrice = 1500,
      promotionsAttached = False\<rparr>"

text \<open>\<^verbatim>\<open>get_flights\<close>, lines 134 to 139.\<close>

definition get_flights :: "int \<Rightarrow> HTTPException + pyval" where
  "get_flights flight_id =
     (if flight_id \<notin> set [1, 2, 3] then
        Inl \<lparr>status_code = 404, detail = ''Flight not found''\<rparr>
      else Inr (PDict [(''message'', PStr ''Fly high!'')]))"

text \<open>
  \<^verbatim>\<open>write_notification\<close>, lines 13 to 16: the two lines it prints (the sleep between
  them has no value to return). \<^verbatim>\<open>send_email\<close>, lines 143 to 145, appends one task to
  the \<^verbatim>\<open>BackgroundTasks\<close> object it is handed and returns nothing; a task is the function
  reference with the positional and keyword arguments captured at that moment.
\<close>

definition write_notification :: "string \<Rightarrow> string \<Rightarrow> string list" where
  "write_notification email message =
     [''Sending email notification in background..'',
      ''Email sent to '' @ email @ '' with message: '' @ message @ '' '']"

datatype callable = Write_notification

record task =
  func :: callable
  args :: "pyval list"
  kwargs :: "(string \<times> pyval) list"

type_synonym BackgroundTasks = "task list"

definition add_task ::
  "BackgroundTasks \<Rightarrow> callable \<Rightarrow> pyval list \<Rightarrow> (string \<times> pyval) list \<Rightarrow> BackgroundTasks" where
  "add_task background_tasks f as kws =
     background_tasks @ [\<lparr>func = f, args = as, kwargs = kws\<rparr>]"

definition send_email :: "string \<Rightarrow> BackgroundTasks \<Rightarrow> pyval \<times> BackgroundTasks" where
  "send_email email background_tasks =
     (PNone,
      add_task background_tasks Write_notification [PStr email]
        [(''message'', PStr ''Hellooo world!!'')])"

section \<open>The routes: declared parameters, validation, response\<close>

text \<open>
  Each handler is registered with \<^verbatim>\<open>@app.get\<close> or \<^verbatim>\<open>@app.post\<close>, and its signature
  declares where every parameter comes from and what it must be. A request is checked
  against these declarations before the handler is called: every parameter is read,
  the failures of all of them are collected, and the handler runs only when there is
  none. A rejected request is answered with status 422.

  The reading of text as an \<^verbatim>\<open>int\<close> belongs to the framework, not to this
  repository: the routes take it as the parameter \<open>to_int\<close>.
\<close>

datatype source = Path | Query | Header | Cookie | Body

datatype problem =
    Missing
  | Not_an_integer
  | Not_an_enum_member
  | Too_short
  | Not_a_string
  | Not_a_list
  | Not_an_object

datatype validation_error = ValidationError source string problem

record response =
  status :: int
  body :: pyval

datatype result = Rejected "validation_error list" | Handled response

definition HTTP_200_OK :: int where
  "HTTP_200_OK = 200"

definition HTTP_422_UNPROCESSABLE_ENTITY :: int where
  "HTTP_422_UNPROCESSABLE_ENTITY = 422"

text \<open>A route that declares no \<^verbatim>\<open>status_code\<close> answers 200.\<close>

definition default_status_code :: int where
  "default_status_code = 200"

fun status_of :: "result \<Rightarrow> int" where
  "status_of (Rejected errs) = HTTP_422_UNPROCESSABLE_ENTITY"
| "status_of (Handled r) = status r"

text \<open>
  The response to a handler's outcome: a raised \<open>HTTPException\<close> is answered with its
  own status and its detail, a returned value with the route's status.
\<close>

definition respond :: "int \<Rightarrow> HTTPException + pyval \<Rightarrow> response" where
  "respond declared outcome =
     (case outcome of
        Inl e \<Rightarrow> \<lparr>status = status_code e, body = PDict [(''detail'', PStr (detail e))]\<rparr>
      | Inr v \<Rightarrow> \<lparr>status = declared, body = v\<rparr>)"

text \<open>Reading one declared parameter: its failures, or its value.\<close>

definition path_int ::
  "(string \<Rightarrow> int option) \<Rightarrow> string \<Rightarrow> string \<Rightarrow> validation_error list + int" where
  "path_int to_int pname raw =
     (case to_int raw of
        None \<Rightarrow> Inl [ValidationError Path pname Not_an_integer]
      | Some n \<Rightarrow> Inr n)"

definition path_Course :: "string \<Rightarrow> string \<Rightarrow> validation_error list + Course" where
  "path_Course pname raw =
     (case Course_of_value raw of
        None \<Rightarrow> Inl [ValidationError Path pname Not_an_enum_member]
      | Some c \<Rightarrow> Inr c)"

definition query_str_required ::
  "string \<Rightarrow> (string \<rightharpoonup> string) \<Rightarrow> validation_error list + string" where
  "query_str_required pname query =
     (case query pname of
        None \<Rightarrow> Inl [ValidationError Query pname Missing]
      | Some s \<Rightarrow> Inr s)"

definition query_int_default ::
  "(string \<Rightarrow> int option) \<Rightarrow> string \<Rightarrow> int \<Rightarrow> (string \<rightharpoonup> string) \<Rightarrow>
     validation_error list + int" where
  "query_int_default to_int pname dflt query =
     (case query pname of
        None \<Rightarrow> Inr dflt
      | Some s \<Rightarrow>
          (case to_int s of
             None \<Rightarrow> Inl [ValidationError Query pname Not_an_integer]
           | Some n \<Rightarrow> Inr n))"

text \<open>
  A field of the request body. The body arrives as JSON, so a field that is present
  can hold a value of any kind, and reading it as the declared type can fail. Which
  JSON values read as an \<^verbatim>\<open>int\<close>, a \<^verbatim>\<open>str\<close> or a \<^verbatim>\<open>List[str]\<close> is the
  framework's business, as \<open>to_int\<close> is: the three readers are parameters.
\<close>

record readers =
  as_int :: "pyval \<Rightarrow> int option"
  as_str :: "pyval \<Rightarrow> string option"
  as_str_list :: "pyval \<Rightarrow> string list option"

text \<open>A field with no default: required.\<close>

definition body_required ::
  "(pyval \<Rightarrow> 'a option) \<Rightarrow> problem \<Rightarrow> string \<Rightarrow> pyval \<Rightarrow> validation_error list + 'a" where
  "body_required reader ill_typed fname b =
     (case field b fname of
        None \<Rightarrow> Inl [ValidationError Body fname Missing]
      | Some v \<Rightarrow>
          (case reader v of
             None \<Rightarrow> Inl [ValidationError Body fname ill_typed]
           | Some x \<Rightarrow> Inr x))"

text \<open>An \<^verbatim>\<open>Optional\<close> field: absent or null is \<^verbatim>\<open>None\<close>.\<close>

definition body_optional ::
  "(pyval \<Rightarrow> 'a option) \<Rightarrow> problem \<Rightarrow> string \<Rightarrow> pyval \<Rightarrow>
     validation_error list + 'a option" where
  "body_optional reader ill_typed fname b =
     (case field b fname of
        None \<Rightarrow> Inr None
      | Some v \<Rightarrow>
          if v = PNone then Inr None
          else
            (case reader v of
               None \<Rightarrow> Inl [ValidationError Body fname ill_typed]
             | Some x \<Rightarrow> Inr (Some x)))"

text \<open>A field with a default: the default when absent.\<close>

definition body_default ::
  "(pyval \<Rightarrow> 'a option) \<Rightarrow> problem \<Rightarrow> string \<Rightarrow> 'a \<Rightarrow> pyval \<Rightarrow>
     validation_error list + 'a" where
  "body_default reader ill_typed fname dflt b =
     (case field b fname of
        None \<Rightarrow> Inr dflt
      | Some v \<Rightarrow>
          (case reader v of
             None \<Rightarrow> Inl [ValidationError Body fname ill_typed]
           | Some x \<Rightarrow> Inr x))"

definition min_length ::
  "nat \<Rightarrow> string \<Rightarrow> validation_error list + string \<Rightarrow> validation_error list + string" where
  "min_length n fname v =
     (case v of
        Inl errs \<Rightarrow> Inl errs
      | Inr s \<Rightarrow> if length s < n then Inl [ValidationError Body fname Too_short] else Inr s)"

fun errors_of :: "validation_error list + 'a \<Rightarrow> validation_error list" where
  "errors_of (Inl errs) = errs"
| "errors_of (Inr _) = []"

text \<open>\<^verbatim>\<open>GET /items/{item_id}\<close> with \<^verbatim>\<open>item_id: int\<close>.\<close>

definition GET_items :: "(string \<Rightarrow> int option) \<Rightarrow> string \<Rightarrow> result" where
  "GET_items to_int segment =
     (case path_int to_int ''item_id'' segment of
        Inr item_id \<Rightarrow> Handled (respond default_status_code (Inr (read_item item_id)))
      | Inl errs \<Rightarrow> Rejected errs)"

text \<open>
  \<^verbatim>\<open>GET /courses/{course}\<close> with \<^verbatim>\<open>course: Course, language: str, minRating: int = 0\<close>:
  a path parameter of the enum, a required query parameter and a query parameter with
  a default.
\<close>

definition GET_courses ::
  "(string \<Rightarrow> int option) \<Rightarrow> string \<Rightarrow> (string \<rightharpoonup> string) \<Rightarrow> result" where
  "GET_courses to_int segment query =
     (case (path_Course ''course'' segment,
            query_str_required ''language'' query,
            query_int_default to_int ''minRating'' 0 query) of
        (Inr course, Inr lang, Inr minRating) \<Rightarrow>
          Handled (respond default_status_code (Inr (get_course course lang minRating)))
      | (c, l, m) \<Rightarrow> Rejected (errors_of c @ errors_of l @ errors_of m))"

text \<open>
  \<^verbatim>\<open>POST /courses/\<close> with \<^verbatim>\<open>course: CourseEntity\<close>. The body is the decoded JSON
  of the request, a \<open>pyval\<close>; it must be an object, and its keys are then read
  against the fields of the model in declaration order, keys the model does not
  declare being ignored. (A decoded object has each key once, so which of two equal
  keys \<open>field\<close> finds does not matter.) \<^verbatim>\<open>id\<close>, \<^verbatim>\<open>name\<close>, \<^verbatim>\<open>description\<close> and
  \<^verbatim>\<open>rating\<close> have no default, so they are required; \<^verbatim>\<open>description\<close> has a minimum
  length; \<^verbatim>\<open>language\<close> is \<^verbatim>\<open>Optional[str]\<close>; \<^verbatim>\<open>tags\<close> has a default.
\<close>

fun is_object :: "pyval \<Rightarrow> bool" where
  "is_object (PDict d) = True"
| "is_object _ = False"

definition validate_CourseEntity :: "readers \<Rightarrow> pyval \<Rightarrow> validation_error list + CourseEntity" where
  "validate_CourseEntity rd b =
     (if \<not> is_object b then Inl [ValidationError Body [] Not_an_object]
      else
        (case (body_required (as_int rd) Not_an_integer ''id'' b,
               body_required (as_str rd) Not_a_string ''name'' b,
               min_length description_min_length ''description''
                 (body_required (as_str rd) Not_a_string ''description'' b),
               body_optional (as_str rd) Not_a_string ''language'' b,
               body_required (as_int rd) Not_an_integer ''rating'' b,
               body_default (as_str_list rd) Not_a_list ''tags'' tags_default b) of
           (Inr i, Inr n, Inr d, Inr l, Inr r, Inr ts) \<Rightarrow>
             Inr \<lparr>id' = i, name = n, description = d, language = l, rating = r, tags = ts\<rparr>
         | (i, n, d, l, r, ts) \<Rightarrow>
             Inl (errors_of i @ errors_of n @ errors_of d @ errors_of l @ errors_of r @
                  errors_of ts)))"

definition POST_courses :: "readers \<Rightarrow> pyval \<Rightarrow> result" where
  "POST_courses rd b =
     (case validate_CourseEntity rd b of
        Inr course \<Rightarrow>
          Handled (respond default_status_code
            (Inr (CourseEntity_json (snd (create_course course)))))
      | Inl errs \<Rightarrow> Rejected errs)"

text \<open>
  \<^verbatim>\<open>GET /students/\<close>: two optional cookies and one optional header, each with the
  default \<^verbatim>\<open>None\<close>. The header parameter \<^verbatim>\<open>user_agent\<close> reads the header
  \<^verbatim>\<open>user-agent\<close>.
\<close>

definition GET_students :: "(string \<rightharpoonup> string) \<Rightarrow> (string \<rightharpoonup> string) \<Rightarrow> result" where
  "GET_students cookies headers =
     Handled (respond default_status_code
       (Inr (get_students (cookies ''token'') (cookies ''ads_id'') (headers ''user-agent''))))"

text \<open>
  \<^verbatim>\<open>GET /current_cart\<close> with \<^verbatim>\<open>response_model=Cart, status_code=status.HTTP_200_OK\<close>:
  what the handler returns is written out through the declared model.
\<close>

definition GET_current_cart :: result where
  "GET_current_cart = Handled (respond HTTP_200_OK (Inr (Cart_json get_cart)))"

text \<open>\<^verbatim>\<open>GET /flights/{flight_id}\<close> with \<^verbatim>\<open>flight_id: int\<close>.\<close>

definition GET_flights :: "(string \<Rightarrow> int option) \<Rightarrow> string \<Rightarrow> result" where
  "GET_flights to_int segment =
     (case path_int to_int ''flight_id'' segment of
        Inr flight_id \<Rightarrow> Handled (respond default_status_code (get_flights flight_id))
      | Inl errs \<Rightarrow> Rejected errs)"

text \<open>
  \<^verbatim>\<open>GET /send_email/{email}\<close> with \<^verbatim>\<open>email: str\<close>: the handler gets the request's
  fresh, empty \<^verbatim>\<open>BackgroundTasks\<close>; the route yields the response and the tasks left
  to run.
\<close>

definition GET_send_email :: "string \<Rightarrow> result \<times> BackgroundTasks" where
  "GET_send_email segment =
     (case send_email segment [] of
        (v, background_tasks) \<Rightarrow>
          (Handled (respond default_status_code (Inr v)), background_tasks))"

subsection \<open>A reading of decimal text, for closed examples\<close>

text \<open>
  One possible \<open>to_int\<close>: an optional minus sign and then one or more decimal digits.
  The theorems below hold for every \<open>to_int\<close>; this one instantiates them.
\<close>

definition digit_of :: "char \<Rightarrow> nat option" where
  "digit_of c = map_of (zip ''0123456789'' [0, 1, 2, 3, 4, 5, 6, 7, 8, 9]) c"

fun digits_value :: "nat \<Rightarrow> string \<Rightarrow> nat option" where
  "digits_value acc [] = Some acc"
| "digits_value acc (c # cs) =
     (case digit_of c of
        None \<Rightarrow> None
      | Some d \<Rightarrow> digits_value (10 * acc + d) cs)"

definition decimal :: "string \<Rightarrow> int option" where
  "decimal s =
     (case s of
        [] \<Rightarrow> None
      | c # cs \<Rightarrow>
          if c = CHR ''-'' then
            (if cs = [] then None else map_option (\<lambda>n. - int n) (digits_value 0 cs))
          else map_option int (digits_value 0 s))"

text \<open>
  One possible choice of readers for the fields of a body: a JSON value reads as the
  declared type when it is of that very kind, and as nothing else.
\<close>

fun exact_int :: "pyval \<Rightarrow> int option" where
  "exact_int (PInt n) = Some n"
| "exact_int _ = None"

fun exact_str :: "pyval \<Rightarrow> string option" where
  "exact_str (PStr s) = Some s"
| "exact_str _ = None"

fun exact_strs :: "pyval list \<Rightarrow> string list option" where
  "exact_strs [] = Some []"
| "exact_strs (v # vs) =
     (case exact_str v of
        None \<Rightarrow> None
      | Some s \<Rightarrow> map_option ((#) s) (exact_strs vs))"

fun exact_str_list :: "pyval \<Rightarrow> string list option" where
  "exact_str_list (PList vs) = exact_strs vs"
| "exact_str_list _ = None"

definition exact :: readers where
  "exact = \<lparr>as_int = exact_int, as_str = exact_str, as_str_list = exact_str_list\<rparr>"

section \<open>What the handlers return\<close>

lemma get_course_fields:
  "get_course course lang minRating \<noteq> PNone \<and>
   fields_of (get_course course lang minRating) = [''description'', ''language'', ''minRating'']"
  by (cases course) (simp_all add: get_course_def)

text \<open>
  C1: for every member of \<open>Course\<close> (chemistry, physics, math), \<open>get_course\<close> returns
  a value that is not \<^verbatim>\<open>None\<close>: a dictionary with the fields description, language and
  minRating. The branch that returns nothing is never reached: whenever the route
  \<^verbatim>\<open>GET /courses/{course}\<close> lets a request through to the handler, the answer is 200
  with such a dictionary as its body.
\<close>

theorem get_course_never_None:
  "get_course course lang minRating \<noteq> PNone \<and>
   fields_of (get_course course lang minRating) = [''description'', ''language'', ''minRating''] \<and>
   (GET_courses to_int segment query = Handled r \<longrightarrow>
      status r = 200 \<and> body r \<noteq> PNone \<and>
      fields_of (body r) = [''description'', ''language'', ''minRating''])"
proof (intro conjI impI)
  show "get_course course lang minRating \<noteq> PNone"
    and "fields_of (get_course course lang minRating) = [''description'', ''language'', ''minRating'']"
    using get_course_fields by simp_all
next
  assume h: "GET_courses to_int segment query = Handled r"
  then obtain c l m where r: "r = respond default_status_code (Inr (get_course c l m))"
    by (auto simp add: GET_courses_def split: sum.splits)
  show "status r = 200"
    by (simp add: r respond_def default_status_code_def)
  show "body r \<noteq> PNone"
    using get_course_fields [of c l m] by (simp add: r respond_def)
  show "fields_of (body r) = [''description'', ''language'', ''minRating'']"
    using get_course_fields [of c l m] by (simp add: r respond_def)
qed

theorem get_course_never_None_witness:
  "get_course PHYSICS ''en'' 3 \<noteq> PNone \<and>
   fields_of (get_course PHYSICS ''en'' 3) = [''description'', ''language'', ''minRating''] \<and>
   GET_courses decimal ''physics'' [''language'' \<mapsto> ''en'', ''minRating'' \<mapsto> ''3''] =
     Handled \<lparr>status = 200,
       body = PDict [(''description'', PStr ''Let's learn about physical matters!''),
                     (''language'', PStr ''en''),
                     (''minRating'', PInt 3)]\<rparr>"
proof -
  have run: "GET_courses decimal ''physics'' [''language'' \<mapsto> ''en'', ''minRating'' \<mapsto> ''3''] =
     Handled \<lparr>status = 200,
       body = PDict [(''description'', PStr ''Let's learn about physical matters!''),
                     (''language'', PStr ''en''),
                     (''minRating'', PInt 3)]\<rparr>"
    by (simp add: GET_courses_def path_Course_def Course_of_value_def query_str_required_def
        query_int_default_def decimal_def digit_of_def get_course_def respond_def
        default_status_code_def)
  from get_course_never_None [of PHYSICS "''en''" 3 decimal "''physics''"
      "[''language'' \<mapsto> ''en'', ''minRating'' \<mapsto> ''3'']"] run
  show ?thesis
    by simp
qed

text \<open>
  C9: for every member of \<open>Course\<close>, every language and every minRating, the value
  \<open>get_course\<close> returns carries the language and the minRating it was given,
  unchanged, whichever course was asked for.
\<close>

theorem get_course_echoes_language_minRating:
  "field (get_course course lang minRating) ''language'' = Some (PStr lang) \<and>
   field (get_course course lang minRating) ''minRating'' = Some (PInt minRating)"
  by (cases course) (simp_all add: get_course_def)

theorem get_course_echoes_language_minRating_witness:
  "field (get_course MATH ''fr'' (- 2)) ''language'' = Some (PStr ''fr'') \<and>
   field (get_course MATH ''fr'' (- 2)) ''minRating'' = Some (PInt (- 2))"
  using get_course_echoes_language_minRating [of MATH "''fr''" "- 2"] by simp

text \<open>
  C2: \<open>get_flights\<close> raises the HTTP error with status 404 and detail
  \<^verbatim>\<open>Flight not found\<close> exactly when \<open>flight_id\<close> is not one of 1, 2, 3, and it raises
  nothing else; for a \<open>flight_id\<close> among 1, 2, 3 it returns the message
  \<^verbatim>\<open>Fly high!\<close>, which the route answers with status 200.
\<close>

theorem get_flights_404_iff:
  "((get_flights flight_id = Inl \<lparr>status_code = 404, detail = ''Flight not found''\<rparr>)
      = (flight_id \<notin> {1, 2, 3})) \<and>
   ((\<exists>e. get_flights flight_id = Inl e) = (flight_id \<notin> {1, 2, 3})) \<and>
   (flight_id \<in> {1, 2, 3} \<longrightarrow>
      get_flights flight_id = Inr (PDict [(''message'', PStr ''Fly high!'')]) \<and>
      respond default_status_code (get_flights flight_id) =
        \<lparr>status = 200, body = PDict [(''message'', PStr ''Fly high!'')]\<rparr>) \<and>
   (to_int segment = Some flight_id \<longrightarrow>
      status_of (GET_flights to_int segment) = (if flight_id \<in> {1, 2, 3} then 200 else 404))"
  by (simp add: get_flights_def respond_def default_status_code_def GET_flights_def path_int_def)

theorem get_flights_404_iff_witness:
  "get_flights 4 = Inl \<lparr>status_code = 404, detail = ''Flight not found''\<rparr> \<and>
   get_flights 2 = Inr (PDict [(''message'', PStr ''Fly high!'')]) \<and>
   respond default_status_code (get_flights 2) =
     \<lparr>status = 200, body = PDict [(''message'', PStr ''Fly high!'')]\<rparr> \<and>
   decimal ''2'' = Some 2 \<and> status_of (GET_flights decimal ''2'') = 200 \<and>
   decimal ''4'' = Some 4 \<and> status_of (GET_flights decimal ''4'') = 404"
proof -
  have d2: "decimal ''2'' = Some 2" and d4: "decimal ''4'' = Some 4"
    by (simp_all add: decimal_def digit_of_def)
  show ?thesis
    using get_flights_404_iff [of 2 decimal "''2''"] get_flights_404_iff [of 4 decimal "''4''"] d2 d4
    by auto
qed

text \<open>
  C10: the answer of \<open>get_flights\<close> to a valid \<open>flight_id\<close> does not tell which one
  it was: any two of 1, 2, 3 get the same value, the message \<^verbatim>\<open>Fly high!\<close>, and so
  the same response. The handler is a function of its argument, so the same request
  gets the same response every time.
\<close>

theorem get_flights_same_for_valid:
  "a \<in> {1, 2, 3} \<Longrightarrow> b \<in> {1, 2, 3} \<Longrightarrow>
     get_flights a = get_flights b \<and>
     get_flights a = Inr (PDict [(''message'', PStr ''Fly high!'')]) \<and>
     respond default_status_code (get_flights a) = respond default_status_code (get_flights b)"
  by (simp add: get_flights_def)

theorem get_flights_same_for_valid_witness:
  "(1::int) \<in> {1, 2, 3} \<and> (3::int) \<in> {1, 2, 3} \<and> get_flights 1 = get_flights 3 \<and>
   get_flights 1 = Inr (PDict [(''message'', PStr ''Fly high!'')])"
proof -
  have h1: "(1::int) \<in> {1, 2, 3}" and h3: "(3::int) \<in> {1, 2, 3}"
    by simp_all
  from get_flights_same_for_valid [OF h1 h3] h1 h3 show ?thesis
    by blast
qed

section \<open>What the routes answer\<close>

text \<open>
  C5: \<^verbatim>\<open>GET /items/{n}\<close>, for a path segment that reads as the integer \<open>n\<close>, is
  answered with status 200 and the body \<^verbatim>\<open>{item_id: n}\<close>; a path segment that does not
  read as an integer is rejected with a validation error, status 422, and the handler
  is not called.
\<close>

theorem GET_items_int_or_422:
  "(to_int segment = Some n \<longrightarrow>
      GET_items to_int segment =
        Handled \<lparr>status = 200, body = PDict [(''item_id'', PInt n)]\<rparr>) \<and>
   (to_int segment = None \<longrightarrow>
      GET_items to_int segment = Rejected [ValidationError Path ''item_id'' Not_an_integer] \<and>
      status_of (GET_items to_int segment) = 422)"
  by (simp add: GET_items_def path_int_def respond_def default_status_code_def read_item_def
      HTTP_422_UNPROCESSABLE_ENTITY_def)

theorem GET_items_int_or_422_witness:
  "decimal ''-17'' = Some (- 17) \<and>
   GET_items decimal ''-17'' = Handled \<lparr>status = 200, body = PDict [(''item_id'', PInt (- 17))]\<rparr> \<and>
   decimal ''abc'' = None \<and>
   GET_items decimal ''abc'' = Rejected [ValidationError Path ''item_id'' Not_an_integer] \<and>
   status_of (GET_items decimal ''abc'') = 422"
proof -
  have a: "decimal ''-17'' = Some (- 17)" and b: "decimal ''abc'' = None"
    by (simp_all add: decimal_def digit_of_def)
  show ?thesis
    using GET_items_int_or_422 [of decimal "''-17''" "- 17"] GET_items_int_or_422 [of decimal "''abc''"] a b
    by blast
qed

lemma Course_of_value_None:
  "segment \<notin> {''chemistry'', ''physics'', ''math''} \<Longrightarrow> Course_of_value segment = None"
  by (auto simp add: Course_of_value_def)

text \<open>
  C7: \<^verbatim>\<open>GET /courses/chemistry\<close> with the query parameter \<^verbatim>\<open>language=en\<close> and no
  \<^verbatim>\<open>minRating\<close> is answered with the chemistry description, language \<^verbatim>\<open>en\<close> and
  minRating 0, the declared default; a course segment that is none of the three
  literals of the enum is rejected with a validation error on the path parameter
  \<^verbatim>\<open>course\<close>, status 422.
\<close>

theorem GET_courses_chemistry_default:
  "(query ''language'' = Some ''en'' \<and> query ''minRating'' = None \<longrightarrow>
      GET_courses to_int ''chemistry'' query =
        Handled \<lparr>status = 200,
          body = PDict [(''description'', PStr ''Let's learn about chemicals!''),
                        (''language'', PStr ''en''),
                        (''minRating'', PInt 0)]\<rparr>) \<and>
   (segment \<notin> {''chemistry'', ''physics'', ''math''} \<longrightarrow>
      (\<exists>errs. GET_courses to_int segment query = Rejected errs \<and>
         ValidationError Path ''course'' Not_an_enum_member \<in> set errs) \<and>
      status_of (GET_courses to_int segment query) = 422)"
proof (intro conjI impI)
  assume "query ''language'' = Some ''en'' \<and> query ''minRating'' = None"
  then show "GET_courses to_int ''chemistry'' query =
        Handled \<lparr>status = 200,
          body = PDict [(''description'', PStr ''Let's learn about chemicals!''),
                        (''language'', PStr ''en''),
                        (''minRating'', PInt 0)]\<rparr>"
    by (simp add: GET_courses_def path_Course_def Course_of_value_def query_str_required_def
        query_int_default_def get_course_def respond_def default_status_code_def)
next
  assume "segment \<notin> {''chemistry'', ''physics'', ''math''}"
  then have none: "path_Course ''course'' segment =
      Inl [ValidationError Path ''course'' Not_an_enum_member]"
    by (simp add: path_Course_def Course_of_value_None)
  show "\<exists>errs. GET_courses to_int segment query = Rejected errs \<and>
         ValidationError Path ''course'' Not_an_enum_member \<in> set errs"
    by (simp add: GET_courses_def none)
  then show "status_of (GET_courses to_int segment query) = 422"
    by (auto simp add: HTTP_422_UNPROCESSABLE_ENTITY_def)
qed

theorem GET_courses_chemistry_default_witness:
  "GET_courses decimal ''chemistry'' [''language'' \<mapsto> ''en''] =
     Handled \<lparr>status = 200,
       body = PDict [(''description'', PStr ''Let's learn about chemicals!''),
                     (''language'', PStr ''en''),
                     (''minRating'', PInt 0)]\<rparr> \<and>
   ''xyz'' \<notin> {''chemistry'', ''physics'', ''math''} \<and>
   (\<exists>errs. GET_courses decimal ''xyz'' [''language'' \<mapsto> ''en''] = Rejected errs \<and>
      ValidationError Path ''course'' Not_an_enum_member \<in> set errs) \<and>
   status_of (GET_courses decimal ''xyz'' [''language'' \<mapsto> ''en'']) = 422"
proof -
  have q: "[''language'' \<mapsto> ''en''] ''language'' = Some ''en'' \<and>
      [''language'' \<mapsto> ''en''] ''minRating'' = None"
    by simp
  have x: "''xyz'' \<notin> {''chemistry'', ''physics'', ''math''}"
    by simp
  from GET_courses_chemistry_default [of "[''language'' \<mapsto> ''en'']" decimal "''xyz''"] q x
  show ?thesis by blast
qed

text \<open>
  C8: \<^verbatim>\<open>GET /students/\<close> is answered with status 200 whichever of the cookies
  \<^verbatim>\<open>token\<close> and \<^verbatim>\<open>ads_id\<close> and of the header \<^verbatim>\<open>user-agent\<close> are there; each of the
  three fields of the body is the value that was sent, or null when none was.
\<close>

theorem GET_students_always_200:
  "GET_students cookies headers =
     Handled \<lparr>status = 200,
       body = PDict [(''cookie_token_found'',
                        (case cookies ''token'' of None \<Rightarrow> PNone | Some v \<Rightarrow> PStr v)),
                     (''ads_id_in_browser'',
                        (case cookies ''ads_id'' of None \<Rightarrow> PNone | Some v \<Rightarrow> PStr v)),
                     (''incoming_user_agent'',
                        (case headers ''user-agent'' of None \<Rightarrow> PNone | Some v \<Rightarrow> PStr v))]\<rparr>"
  by (simp add: GET_students_def get_students_def respond_def default_status_code_def
      split: option.splits)

theorem GET_students_always_200_witness:
  "GET_students [''token'' \<mapsto> ''t0k3n''] [''user-agent'' \<mapsto> ''curl/8.0''] =
     Handled \<lparr>status = 200,
       body = PDict [(''cookie_token_found'', PStr ''t0k3n''),
                     (''ads_id_in_browser'', PNone),
                     (''incoming_user_agent'', PStr ''curl/8.0'')]\<rparr>"
  using GET_students_always_200 [of "[''token'' \<mapsto> ''t0k3n'']" "[''user-agent'' \<mapsto> ''curl/8.0'']"]
  by simp

text \<open>
  C6: \<^verbatim>\<open>GET /current_cart\<close> is answered with status 200 and a body of exactly the
  three fields items, totalPrice and promotionsAttached, with totalPrice 1500 and
  promotionsAttached false. The body is written through the declared model
  \<open>Cart\<close>, and any \<open>Cart\<close> is written with exactly these three fields.
\<close>

theorem GET_current_cart_three_fields:
  "GET_current_cart =
     Handled \<lparr>status = 200,
       body = PDict [(''items'', PList [PStr ''shampoo'', PStr ''chocolates'', PStr ''soap'']),
                     (''totalPrice'', PInt 1500),
                     (''promotionsAttached'', PBool False)]\<rparr> \<and>
   fields_of (Cart_json c) = [''items'', ''totalPrice'', ''promotionsAttached''] \<and>
   field (Cart_json c) ''totalPrice'' = Some (PInt (totalPrice c)) \<and>
   field (Cart_json c) ''promotionsAttached'' = Some (PBool (promotionsAttached c))"
  by (simp add: GET_current_cart_def get_cart_def Cart_json_def respond_def HTTP_200_OK_def)

theorem GET_current_cart_three_fields_witness:
  "GET_current_cart =
     Handled \<lparr>status = 200,
       body = PDict [(''items'', PList [PStr ''shampoo'', PStr ''chocolates'', PStr ''soap'']),
                     (''totalPrice'', PInt 1500),
                     (''promotionsAttached'', PBool False)]\<rparr> \<and>
   fields_of (Cart_json get_cart) = [''items'', ''totalPrice'', ''promotionsAttached''] \<and>
   field (Cart_json get_cart) ''totalPrice'' = Some (PInt 1500) \<and>
   field (Cart_json get_cart) ''promotionsAttached'' = Some (PBool False)"
  using GET_current_cart_three_fields [of get_cart] by (simp add: get_cart_def)

subsection \<open>The body of POST /courses/\<close>

lemma field_is_object: "field b k = Some v \<Longrightarrow> is_object b"
  by (cases b) simp_all

lemma errors_of_body_required:
  "e \<in> set (errors_of (body_required reader ill_typed fname b)) \<Longrightarrow>
     \<exists>p. e = ValidationError Body fname p"
  by (auto simp add: body_required_def split: option.splits)

lemma errors_of_body_optional:
  "e \<in> set (errors_of (body_optional reader ill_typed fname b)) \<Longrightarrow>
     \<exists>p. e = ValidationError Body fname p"
  by (auto simp add: body_optional_def split: option.splits if_splits)

lemma errors_of_body_default:
  "e \<in> set (errors_of (body_default reader ill_typed fname dflt b)) \<Longrightarrow>
     \<exists>p. e = ValidationError Body fname p"
  by (auto simp add: body_default_def split: option.splits)

lemma description_long_enough:
  "field b ''description'' = Some v \<Longrightarrow> as_str rd v = Some d \<Longrightarrow> 5 \<le> length d \<Longrightarrow>
     min_length description_min_length ''description''
       (body_required (as_str rd) Not_a_string ''description'' b) = Inr d"
  by (simp add: min_length_def body_required_def description_min_length_def)

lemma description_too_short:
  "field b ''description'' = Some v \<Longrightarrow> as_str rd v = Some d \<Longrightarrow> length d < 5 \<Longrightarrow>
     min_length description_min_length ''description''
       (body_required (as_str rd) Not_a_string ''description'' b) =
     Inl [ValidationError Body ''description'' Too_short]"
  by (simp add: min_length_def body_required_def description_min_length_def)

lemma validate_CourseEntity_errors:
  "is_object b \<Longrightarrow> validate_CourseEntity rd b = Inl errs \<Longrightarrow>
     errs =
       errors_of (body_required (as_int rd) Not_an_integer ''id'' b) @
       errors_of (body_required (as_str rd) Not_a_string ''name'' b) @
       errors_of (min_length description_min_length ''description''
                   (body_required (as_str rd) Not_a_string ''description'' b)) @
       errors_of (body_optional (as_str rd) Not_a_string ''language'' b) @
       errors_of (body_required (as_int rd) Not_an_integer ''rating'' b) @
       errors_of (body_default (as_str_list rd) Not_a_list ''tags'' tags_default b)"
  by (simp add: validate_CourseEntity_def split: sum.splits)

lemma validate_CourseEntity_short:
  assumes "field b ''description'' = Some v" and "as_str rd v = Some d" and "length d < 5"
  shows "\<exists>errs. validate_CourseEntity rd b = Inl errs \<and>
           ValidationError Body ''description'' Too_short \<in> set errs"
proof -
  have obj: "is_object b"
    using assms(1) by (rule field_is_object)
  have short: "min_length description_min_length ''description''
       (body_required (as_str rd) Not_a_string ''description'' b) =
     Inl [ValidationError Body ''description'' Too_short]"
    using assms by (rule description_too_short)
  show ?thesis
    by (simp add: validate_CourseEntity_def obj short split: sum.splits)
qed

lemma validate_CourseEntity_no_description_error:
  assumes "field b ''description'' = Some v" and "as_str rd v = Some d" and "5 \<le> length d"
    and "validate_CourseEntity rd b = Inl errs"
  shows "ValidationError Body ''description'' p \<notin> set errs"
proof
  assume mem: "ValidationError Body ''description'' p \<in> set errs"
  have obj: "is_object b"
    using assms(1) by (rule field_is_object)
  have ok: "errors_of (min_length description_min_length ''description''
       (body_required (as_str rd) Not_a_string ''description'' b)) = []"
    using description_long_enough [OF assms(1-3)] by simp
  from validate_CourseEntity_errors [OF obj assms(4)] mem ok
  have "ValidationError Body ''description'' p \<in>
      set (errors_of (body_required (as_int rd) Not_an_integer ''id'' b)) \<union>
      set (errors_of (body_required (as_str rd) Not_a_string ''name'' b)) \<union>
      set (errors_of (body_optional (as_str rd) Not_a_string ''language'' b)) \<union>
      set (errors_of (body_required (as_int rd) Not_an_integer ''rating'' b)) \<union>
      set (errors_of (body_default (as_str_list rd) Not_a_list ''tags'' tags_default b))"
    by simp
  then show False
    by (auto dest: errors_of_body_required errors_of_body_optional errors_of_body_default)
qed

lemma validate_CourseEntity_accepts:
  assumes "field b ''description'' = Some v" and "as_str rd v = Some d" and "5 \<le> length d"
    and "body_required (as_int rd) Not_an_integer ''id'' b = Inr i"
    and "body_required (as_str rd) Not_a_string ''name'' b = Inr n"
    and "body_optional (as_str rd) Not_a_string ''language'' b = Inr l"
    and "body_required (as_int rd) Not_an_integer ''rating'' b = Inr r"
    and "body_default (as_str_list rd) Not_a_list ''tags'' tags_default b = Inr ts"
  shows "validate_CourseEntity rd b =
     Inr \<lparr>id' = i, name = n, description = d, language = l, rating = r, tags = ts\<rparr>"
proof -
  have obj: "is_object b"
    using assms(1) by (rule field_is_object)
  show ?thesis
    by (simp add: validate_CourseEntity_def obj description_long_enough [OF assms(1-3)]
        assms(4-8))
qed

lemma tags_omitted:
  "field b ''tags'' = None \<Longrightarrow>
     body_default (as_str_list rd) Not_a_list ''tags'' tags_default b = Inr [''public'']"
  by (simp add: body_default_def tags_default_def)


text \<open>
  A field that is present with a value of the wrong kind is refused as well: here
  \<^verbatim>\<open>id\<close> is a string that no reader takes for an \<^verbatim>\<open>int\<close>.
\<close>

lemma POST_courses_ill_typed_id:
  "POST_courses exact
     (PDict [(''id'', PStr ''seven''), (''name'', PStr ''Algebra''),
             (''description'', PStr ''abcde''), (''rating'', PInt 4)])
     = Rejected [ValidationError Body ''id'' Not_an_integer]"
  by (simp add: POST_courses_def validate_CourseEntity_def body_required_def body_optional_def
      body_default_def min_length_def description_min_length_def exact_def)


text \<open>
  C3: a body whose description has fewer than 5 characters is rejected with a
  validation error on that field, status 422, and the handler is not called. A
  description of exactly 5 characters passes: no rejection of such a body names the
  description, and when the other fields of the body pass their own checks the body
  is accepted, the handler returns the validated entity unchanged, and the response
  is 200 with that entity, its tags being \<^verbatim>\<open>["public"]\<close> when the body has none.
\<close>

theorem POST_courses_description_boundary:
  "field b ''description'' = Some v \<and> as_str rd v = Some d \<longrightarrow>
     (length d < 5 \<longrightarrow>
        (\<exists>errs. POST_courses rd b = Rejected errs \<and>
           ValidationError Body ''description'' Too_short \<in> set errs) \<and>
        status_of (POST_courses rd b) = 422) \<and>
     (length d = 5 \<longrightarrow>
        (\<forall>errs p. POST_courses rd b = Rejected errs \<longrightarrow>
           ValidationError Body ''description'' p \<notin> set errs) \<and>
        (body_required (as_int rd) Not_an_integer ''id'' b = Inr i \<and>
         body_required (as_str rd) Not_a_string ''name'' b = Inr n \<and>
         body_optional (as_str rd) Not_a_string ''language'' b = Inr l \<and>
         body_required (as_int rd) Not_an_integer ''rating'' b = Inr r \<and>
         body_default (as_str_list rd) Not_a_list ''tags'' tags_default b = Inr ts \<longrightarrow>
           validate_CourseEntity rd b =
             Inr \<lparr>id' = i, name = n, description = d, language = l, rating = r, tags = ts\<rparr> \<and>
           snd (create_course
                 \<lparr>id' = i, name = n, description = d, language = l, rating = r, tags = ts\<rparr>)
             = \<lparr>id' = i, name = n, description = d, language = l, rating = r, tags = ts\<rparr> \<and>
           POST_courses rd b =
             Handled \<lparr>status = 200,
               body = PDict [(''id'', PInt i), (''name'', PStr n), (''description'', PStr d),
                             (''language'', optional_str l), (''rating'', PInt r),
                             (''tags'', PList (map PStr ts))]\<rparr> \<and>
           (field b ''tags'' = None \<longrightarrow> ts = [''public''])))"
proof (intro impI, elim conjE, intro conjI impI allI)
  assume f: "field b ''description'' = Some v" and s: "as_str rd v = Some d"
  {
    assume short: "length d < 5"
    from validate_CourseEntity_short [OF f s short]
    obtain errs where e: "validate_CourseEntity rd b = Inl errs"
      and m: "ValidationError Body ''description'' Too_short \<in> set errs"
      by blast
    from e m show "\<exists>errs. POST_courses rd b = Rejected errs \<and>
        ValidationError Body ''description'' Too_short \<in> set errs"
      by (simp add: POST_courses_def)
    from e show "status_of (POST_courses rd b) = 422"
      by (simp add: POST_courses_def HTTP_422_UNPROCESSABLE_ENTITY_def)
  }
  {
    fix errs p
    assume five: "length d = 5" and rej: "POST_courses rd b = Rejected errs"
    from rej have "validate_CourseEntity rd b = Inl errs"
      by (simp add: POST_courses_def split: sum.splits)
    with f s five show "ValidationError Body ''description'' p \<notin> set errs"
      using validate_CourseEntity_no_description_error [of b v rd d errs p] by simp
  }
  {
    assume five: "length d = 5"
      and others: "body_required (as_int rd) Not_an_integer ''id'' b = Inr i \<and>
         body_required (as_str rd) Not_a_string ''name'' b = Inr n \<and>
         body_optional (as_str rd) Not_a_string ''language'' b = Inr l \<and>
         body_required (as_int rd) Not_an_integer ''rating'' b = Inr r \<and>
         body_default (as_str_list rd) Not_a_list ''tags'' tags_default b = Inr ts"
    from five have ge: "5 \<le> length d"
      by simp
    from others show valid: "validate_CourseEntity rd b =
        Inr \<lparr>id' = i, name = n, description = d, language = l, rating = r, tags = ts\<rparr>"
      using validate_CourseEntity_accepts [OF f s ge, of i n l r ts] by blast
    show "snd (create_course
                 \<lparr>id' = i, name = n, description = d, language = l, rating = r, tags = ts\<rparr>)
             = \<lparr>id' = i, name = n, description = d, language = l, rating = r, tags = ts\<rparr>"
      by (simp add: create_course_def)
    from valid show "POST_courses rd b =
             Handled \<lparr>status = 200,
               body = PDict [(''id'', PInt i), (''name'', PStr n), (''description'', PStr d),
                             (''language'', optional_str l), (''rating'', PInt r),
                             (''tags'', PList (map PStr ts))]\<rparr>"
      by (simp add: POST_courses_def create_course_def CourseEntity_json_def respond_def
          default_status_code_def)
    {
      assume "field b ''tags'' = None"
      from tags_omitted [OF this, of rd] others show "ts = [''public'']"
        by simp
    }
  }
qed

theorem POST_courses_description_boundary_witness:
  "(\<exists>errs. POST_courses exact
       (PDict [(''id'', PInt 7), (''name'', PStr ''Algebra''), (''description'', PStr ''abcd''),
               (''language'', PStr ''en''), (''rating'', PInt 4)]) = Rejected errs \<and>
       ValidationError Body ''description'' Too_short \<in> set errs) \<and>
   status_of (POST_courses exact
       (PDict [(''id'', PInt 7), (''name'', PStr ''Algebra''), (''description'', PStr ''abcd''),
               (''language'', PStr ''en''), (''rating'', PInt 4)])) = 422 \<and>
   POST_courses exact
     (PDict [(''id'', PInt 7), (''name'', PStr ''Algebra''), (''description'', PStr ''abcde''),
             (''language'', PStr ''en''), (''rating'', PInt 4)])
     = Handled \<lparr>status = 200,
         body = PDict [(''id'', PInt 7), (''name'', PStr ''Algebra''),
                       (''description'', PStr ''abcde''), (''language'', PStr ''en''),
                       (''rating'', PInt 4), (''tags'', PList [PStr ''public''])]\<rparr>"
  using
    POST_courses_description_boundary
      [of "PDict [(''id'', PInt 7), (''name'', PStr ''Algebra''), (''description'', PStr ''abcd''),
                  (''language'', PStr ''en''), (''rating'', PInt 4)]"
          "PStr ''abcd''" exact "''abcd''"]
    POST_courses_description_boundary
      [of "PDict [(''id'', PInt 7), (''name'', PStr ''Algebra''), (''description'', PStr ''abcde''),
                  (''language'', PStr ''en''), (''rating'', PInt 4)]"
          "PStr ''abcde''" exact "''abcde''" 7 "''Algebra''" "Some ''en''" 4 "[''public'']"]
  by (simp add: exact_def body_required_def body_optional_def body_default_def tags_default_def)

subsection \<open>The task that send_email leaves behind\<close>

text \<open>
  \<open>send_email\<close> appends one task to the tasks it is given: \<open>write_notification\<close> with
  the email as its one positional argument and the fixed message as keyword argument.
  The route starts from no task, so one task is left to run after the response, which
  is 200 with an empty body.
\<close>

lemma send_email_one_task:
  "send_email email background_tasks =
     (PNone, background_tasks @
        [\<lparr>func = Write_notification, args = [PStr email],
          kwargs = [(''message'', PStr ''Hellooo world!!'')]\<rparr>])"
  by (simp add: send_email_def add_task_def)

lemma GET_send_email_one_task:
  "GET_send_email email =
     (Handled \<lparr>status = 200, body = PNone\<rparr>,
      [\<lparr>func = Write_notification, args = [PStr email],
        kwargs = [(''message'', PStr ''Hellooo world!!'')]\<rparr>])"
  by (simp add: GET_send_email_def send_email_def add_task_def respond_def
      default_status_code_def)

end
